theory Spec2Isabelle
  imports Complex_Main "HOL-Library.Log_Nat"
begin

section \<open>Python values used by \<open>suumo_scrapper.py\<close>\<close>

subsection \<open>Strings\<close>

text \<open>
  A Python \<open>str\<close> is a sequence of Unicode code points, so it is modelled as a list of
  code points (as integers, like \<open>ord\<close>), not as a list of bytes: \<open>rstrip\<close> and the regex dot work on
  code points, and the currency suffix is the two code points U+4E07 U+5186.
  \<open>u\<close> turns an ASCII literal into such a string.
\<close>

type_synonym pystr = "int list"

definition u :: "string \<Rightarrow> pystr" where
  "u s = map (of_char :: char \<Rightarrow> int) s"

definition MAN :: int where
  "MAN = 19975"

definition EN :: int where
  "EN = 20870"

definition MANEN :: pystr where
  "MANEN = [MAN, EN]"

text \<open>\<open>CRNLTAB\<close> is the character set of \<open>'\r\n\t\t...'\<close>, the argument of most \<open>lstrip\<close> calls.\<close>

definition CRNLTAB :: pystr where
  "CRNLTAB = [13, 10, 9]"

text \<open>
  \<open>s.lstrip(chars)\<close> and \<open>s.rstrip(chars)\<close> remove, from one end, every character that
  belongs to the set of characters of \<open>chars\<close>; they do not remove a prefix or a suffix.
  \<open>s.replace(old, new)\<close> is only called with one-character arguments.
\<close>

definition lstrip :: "pystr \<Rightarrow> pystr \<Rightarrow> pystr" where
  "lstrip s chars = dropWhile (\<lambda>c. c \<in> set chars) s"

definition rstrip :: "pystr \<Rightarrow> pystr \<Rightarrow> pystr" where
  "rstrip s chars = rev (dropWhile (\<lambda>c. c \<in> set chars) (rev s))"

definition replace :: "pystr \<Rightarrow> int \<Rightarrow> int \<Rightarrow> pystr" where
  "replace s old new = map (\<lambda>c. if c = old then new else c) s"

text \<open>The slice \<open>s[:k]\<close>, with Python's treatment of a negative or too large bound.\<close>

definition slice_to :: "'a list \<Rightarrow> int \<Rightarrow> 'a list" where
  "slice_to s k =
     (let n = int (length s);
          stop = (if k < 0 then max 0 (n + k) else min k n)
      in take (nat stop) s)"

subsection \<open>Errors and indexing\<close>

datatype error = IndexError | AttributeError | ValueError | OverflowError | ZeroDivisionError

text \<open>\<open>xs[i]\<close> for a constant index \<open>i \<ge> 0\<close>: out of range raises.\<close>

definition index :: "'a list \<Rightarrow> nat \<Rightarrow> error + 'a" where
  "index xs i = (if i < length xs then Inr (xs ! i) else Inl IndexError)"

subsection \<open>Floats\<close>

text \<open>
  A Python \<open>float\<close> is an IEEE 754 double. A finite double is modelled by the rational
  number it denotes (the two zeros are identified: they compare equal and nothing here
  divides by a float zero), and \<open>fl\<close> rounds a rational to the nearest double, ties to
  even, with gradual underflow (no exponent below \<open>-1074\<close>) and overflow to infinity
  when the rounded magnitude reaches \<open>2 ^ 1024\<close>. Every arithmetic operation is the
  exact operation followed by \<open>fl\<close>.
\<close>

datatype pyfloat = Fin rat | PInf | NInf | NaN

definition pow2 :: "int \<Rightarrow> rat" where
  "pow2 k = (if 0 \<le> k then of_int (2 ^ nat k) else 1 / of_int (2 ^ nat (- k)))"

definition pow10 :: "int \<Rightarrow> rat" where
  "pow10 k = (if 0 \<le> k then of_int (10 ^ nat k) else 1 / of_int (10 ^ nat (- k)))"

definition round_half_even :: "rat \<Rightarrow> int" where
  "round_half_even q =
     (let f = \<lfloor>q\<rfloor>; d = q - of_int f
      in if d < 1 / 2 then f else if 1 / 2 < d then f + 1 else if even f then f else f + 1)"

text \<open>\<open>ilog2 q\<close> is \<open>\<lfloor>log\<^sub>2 q\<rfloor>\<close> for \<open>q > 0\<close>, from the bit lengths of numerator and denominator.\<close>

definition ilog2 :: "rat \<Rightarrow> int" where
  "ilog2 q =
     (let (n, d) = quotient_of q;
          k = bitlen n - bitlen d
      in if pow2 k \<le> q then k else k - 1)"

definition nearest :: "rat \<Rightarrow> rat" where
  "nearest q =
     (let e = max (ilog2 q - 52) (- 1074)
      in of_int (round_half_even (q / pow2 e)) * pow2 e)"

definition fl :: "rat \<Rightarrow> pyfloat" where
  "fl q =
     (if q = 0 then Fin 0
      else let r = nearest \<bar>q\<bar>
           in if pow2 1024 \<le> r then (if q < 0 then NInf else PInf)
              else Fin (if q < 0 then - r else r))"

fun fadd :: "pyfloat \<Rightarrow> pyfloat \<Rightarrow> pyfloat" where
  "fadd (Fin a) (Fin b) = fl (a + b)"
| "fadd NaN _ = NaN"
| "fadd _ NaN = NaN"
| "fadd PInf NInf = NaN"
| "fadd NInf PInf = NaN"
| "fadd PInf _ = PInf"
| "fadd _ PInf = PInf"
| "fadd NInf _ = NInf"
| "fadd _ NInf = NInf"

definition fsign :: "pyfloat \<Rightarrow> int" where
  "fsign x =
     (case x of
        Fin a \<Rightarrow> (if a = 0 then 0 else if 0 < a then 1 else - 1)
      | PInf \<Rightarrow> 1
      | NInf \<Rightarrow> - 1
      | NaN \<Rightarrow> 0)"

fun fmul :: "pyfloat \<Rightarrow> pyfloat \<Rightarrow> pyfloat" where
  "fmul (Fin a) (Fin b) = fl (a * b)"
| "fmul NaN _ = NaN"
| "fmul _ NaN = NaN"
| "fmul x y =
     (if fsign x = 0 \<or> fsign y = 0 then NaN
      else if fsign x = fsign y then PInf else NInf)"

text \<open>True division \<open>x / y\<close> on floats: a zero divisor raises.\<close>

fun fdiv :: "pyfloat \<Rightarrow> pyfloat \<Rightarrow> error + pyfloat" where
  "fdiv (Fin a) (Fin b) = (if b = 0 then Inl ZeroDivisionError else Inr (fl (a / b)))"
| "fdiv NaN (Fin b) = (if b = 0 then Inl ZeroDivisionError else Inr NaN)"
| "fdiv PInf (Fin b) = (if b = 0 then Inl ZeroDivisionError else Inr (if 0 < b then PInf else NInf))"
| "fdiv NInf (Fin b) = (if b = 0 then Inl ZeroDivisionError else Inr (if 0 < b then NInf else PInf))"
| "fdiv _ NaN = Inr NaN"
| "fdiv (Fin a) _ = Inr (Fin 0)"
| "fdiv _ _ = Inr NaN"

text \<open>
  \<open>int(x)\<close> truncates toward zero and raises on a non-finite float; the implicit
  conversion of an \<open>int\<close> operand in mixed arithmetic rounds to the nearest double and
  raises when the integer is too large.
\<close>

definition float_to_int :: "pyfloat \<Rightarrow> error + int" where
  "float_to_int x =
     (case x of
        Fin a \<Rightarrow> Inr (if 0 \<le> a then \<lfloor>a\<rfloor> else \<lceil>a\<rceil>)
      | NaN \<Rightarrow> Inl ValueError
      | _ \<Rightarrow> Inl OverflowError)"

definition int_to_float :: "int \<Rightarrow> error + pyfloat" where
  "int_to_float i = (case fl (of_int i) of Fin a \<Rightarrow> Inr (Fin a) | _ \<Rightarrow> Inl OverflowError)"

text \<open>The value of a Python expression that is an \<open>int\<close> on one path and a \<open>float\<close> on another.\<close>

datatype pynum = PyInt int | PyFloat pyfloat

subsection \<open>The conversions \<open>float(s)\<close> and \<open>int(s)\<close> of a string\<close>

text \<open>
  Both conversions strip surrounding whitespace, accept single underscores between
  digits and an optional sign, and raise \<open>ValueError\<close> on anything else. \<open>float\<close> reads
  a decimal numeral with an optional fraction and exponent, or one of \<open>inf\<close>,
  \<open>infinity\<close>, \<open>nan\<close> in any letter case, and returns the correctly rounded double.
  A decimal digit is any character of the Unicode category Nd, for \<open>float\<close> and \<open>int\<close>
  as for \<open>\d\<close> in a pattern, and it stands for its digit value.
\<close>

definition is_space :: "int \<Rightarrow> bool" where
  "is_space c \<longleftrightarrow>
     (9 \<le> c \<and> c \<le> 13) \<or> c = 32 \<or> c = 133 \<or> c = 160 \<or> c = 5760 \<or>
     (8192 \<le> c \<and> c \<le> 8202) \<or> c = 8232 \<or> c = 8233 \<or> c = 8239 \<or> c = 8287 \<or> c = 12288"

text \<open>
  The decimal digits come in runs of ten, from the digit zero of a script to its digit
  nine. \<open>DIGIT_ZEROS\<close> lists the zeros outside ASCII (the category Nd of Unicode 14.0, the
  table of CPython 3.11); the ASCII digits are looked up first.
\<close>

definition DIGIT_ZEROS :: "int list" where
  "DIGIT_ZEROS =
      [1632, 1776, 1984, 2406, 2534, 2662, 2790, 2918, 3046, 3174,
       3302, 3430, 3558, 3664, 3792, 3872, 4160, 4240, 6112, 6160,
       6470, 6608, 6784, 6800, 6992, 7088, 7232, 7248, 42528, 43216,
       43264, 43472, 43504, 43600, 44016, 65296, 66720, 68912, 69734, 69872,
       69942, 70096, 70384, 70736, 70864, 71248, 71360, 71472, 71904, 72016,
       72784, 73040, 73120, 92768, 92864, 93008, 120782, 120792, 120802, 120812,
       120822, 123200, 123632, 125264, 130032]"

definition digit_value :: "int \<Rightarrow> int option" where
  "digit_value c =
     (if c < 128 then (if 48 \<le> c \<and> c \<le> 57 then Some (c - 48) else None)
      else map_option (\<lambda>z. c - z) (find (\<lambda>z. z \<le> c \<and> c \<le> z + 9) DIGIT_ZEROS))"

definition is_digit :: "int \<Rightarrow> bool" where
  "is_digit c \<longleftrightarrow> digit_value c \<noteq> None"

definition strip :: "pystr \<Rightarrow> pystr" where
  "strip s = rev (dropWhile is_space (rev (dropWhile is_space s)))"

text \<open>The value of a run of decimal digits.\<close>

definition dec :: "pystr \<Rightarrow> int" where
  "dec ds = foldl (\<lambda>a c. 10 * a + (case digit_value c of Some v \<Rightarrow> v | None \<Rightarrow> 0)) 0 ds"

text \<open>
  Removal of the underscores: an underscore must follow a digit and precede a digit.
  The first argument is the previous character (\<open>0\<close> at the start).
\<close>

fun drop_underscores :: "int \<Rightarrow> pystr \<Rightarrow> pystr option" where
  "drop_underscores prev [] = (if prev = 95 then None else Some [])"
| "drop_underscores prev (c # cs) =
     (if c = 95 then (if is_digit prev then drop_underscores c cs else None)
      else if prev = 95 \<and> \<not> is_digit c then None
      else map_option ((#) c) (drop_underscores c cs))"

definition lower :: "int \<Rightarrow> int" where
  "lower c = (if 65 \<le> c \<and> c \<le> 90 then c + 32 else c)"

text \<open>An optional sign: whether it is a minus, and the rest of the string.\<close>

definition split_sign :: "pystr \<Rightarrow> bool \<times> pystr" where
  "split_sign s =
     (case s of
        [] \<Rightarrow> (False, [])
      | c # cs \<Rightarrow> if c = 45 then (True, cs) else if c = 43 then (False, cs) else (False, s))"

text \<open>
  The exponent part: empty, or \<open>e\<close>/\<open>E\<close>, an optional sign and at least one digit.
\<close>

definition parse_exponent :: "pystr \<Rightarrow> int option" where
  "parse_exponent s =
     (case s of
        [] \<Rightarrow> Some 0
      | c # cs \<Rightarrow>
          if c = 101 \<or> c = 69 then
            (let (neg, ds) = split_sign cs
             in if ds \<noteq> [] \<and> list_all is_digit ds
                then Some (if neg then - dec ds else dec ds) else None)
          else None)"

text \<open>An unsigned decimal numeral: digits, an optional point and digits, an exponent part.\<close>

definition parse_decimal :: "pystr \<Rightarrow> rat option" where
  "parse_decimal s =
     (let ip = takeWhile is_digit s;
          r1 = dropWhile is_digit s;
          (fp, r2) = (case r1 of
                        [] \<Rightarrow> ([], [])
                      | c # r \<Rightarrow> if c = 46 then (takeWhile is_digit r, dropWhile is_digit r)
                                 else ([], r1))
      in if ip = [] \<and> fp = [] then None
         else case parse_exponent r2 of
                None \<Rightarrow> None
              | Some ex \<Rightarrow> Some (of_int (dec (ip @ fp)) * pow10 (ex - int (length fp))))"

definition py_float :: "pystr \<Rightarrow> error + pyfloat" where
  "py_float s =
     (case drop_underscores 0 (strip s) of
        None \<Rightarrow> Inl ValueError
      | Some t \<Rightarrow>
          (let (neg, body) = split_sign t;
               w = map lower body
           in if w = u ''inf'' \<or> w = u ''infinity'' then Inr (if neg then NInf else PInf)
              else if w = u ''nan'' then Inr NaN
              else case parse_decimal body of
                     None \<Rightarrow> Inl ValueError
                   | Some q \<Rightarrow> Inr (fl (if neg then - q else q))))"

definition py_int :: "pystr \<Rightarrow> error + int" where
  "py_int s =
     (case drop_underscores 0 (strip s) of
        None \<Rightarrow> Inl ValueError
      | Some t \<Rightarrow>
          (let (neg, ds) = split_sign t
           in if ds \<noteq> [] \<and> list_all is_digit ds
              then Inr (if neg then - dec ds else dec ds)
              else Inl ValueError))"

subsection \<open>Regular expressions\<close>

text \<open>
  The three patterns of the module have the same shape: literal characters followed by
  one capturing group that runs to the end of the pattern; the group is a list of
  alternatives, each a sequence of one-character atoms with or without a quantifier
  \<open>?\<close>, \<open>*\<close> or \<open>+\<close>. \<open>\d\<close> is a decimal digit, the dot is any character but a newline.
\<close>

datatype atom = Digit | AnyChar | Lit int

fun accepts :: "atom \<Rightarrow> int \<Rightarrow> bool" where
  "accepts Digit c = is_digit c"
| "accepts AnyChar c = (c \<noteq> 10)"
| "accepts (Lit x) c = (c = x)"

datatype item = One atom | Opt atom | Star atom | Plus atom

datatype regex = Regex "atom list" "item list list"

text \<open>
  Backtracking match of a sequence of items at the start of a string: the number of
  characters of the first match in the order in which \<open>re\<close> tries them (quantifiers
  are greedy: the longest repetition first, then shorter ones).
\<close>

fun match_items :: "item list \<Rightarrow> pystr \<Rightarrow> nat option" where
  "match_items [] s = Some 0"
| "match_items (One a # r) [] = None"
| "match_items (One a # r) (c # cs) =
     (if accepts a c then map_option Suc (match_items r cs) else None)"
| "match_items (Opt a # r) [] = match_items r []"
| "match_items (Opt a # r) (c # cs) =
     (if accepts a c
      then (case match_items r cs of
              Some n \<Rightarrow> Some (Suc n)
            | None \<Rightarrow> match_items r (c # cs))
      else match_items r (c # cs))"
| "match_items (Star a # r) [] = match_items r []"
| "match_items (Star a # r) (c # cs) =
     (if accepts a c
      then (case match_items (Star a # r) cs of
              Some n \<Rightarrow> Some (Suc n)
            | None \<Rightarrow> match_items r (c # cs))
      else match_items r (c # cs))"
| "match_items (Plus a # r) [] = None"
| "match_items (Plus a # r) (c # cs) =
     (if accepts a c then map_option Suc (match_items (Star a # r) cs) else None)"

text \<open>The alternatives of the group are tried from left to right.\<close>

fun match_alts :: "atom list \<Rightarrow> item list list \<Rightarrow> pystr \<Rightarrow> nat option" where
  "match_alts pre [] s = None"
| "match_alts pre (a # alts) s =
     (case match_items (map One pre @ a) s of
        Some n \<Rightarrow> Some n
      | None \<Rightarrow> match_alts pre alts s)"

text \<open>A match object: \<open>group(0)\<close> is the whole match, \<open>group(1)\<close> the text of the group.\<close>

record re_match =
  group0 :: pystr
  group1 :: pystr

fun match_here :: "regex \<Rightarrow> pystr \<Rightarrow> re_match option" where
  "match_here (Regex pre alts) s =
     (case match_alts pre alts s of
        None \<Rightarrow> None
      | Some n \<Rightarrow> Some \<lparr>group0 = take n s, group1 = drop (length pre) (take n s)\<rparr>)"

text \<open>\<open>re.search\<close>: the match at the leftmost position that has one, \<open>None\<close> if there is none.\<close>

fun re_search :: "regex \<Rightarrow> pystr \<Rightarrow> re_match option" where
  "re_search r [] = match_here r []"
| "re_search r (c # cs) =
     (case match_here r (c # cs) of
        Some m \<Rightarrow> Some m
      | None \<Rightarrow> re_search r cs)"

text \<open>
  \<^verbatim>\<open>LAT__REGEX = r'"lat": (\d+.\d+)'\<close>, \<^verbatim>\<open>LONG_REGEX = r'"lng": (\d+.\d+)'\<close> and
  \<^verbatim>\<open>EXTRA_FEES_REGEX = r'(\d+.?\d*<U+4E07><U+5186>|-)'\<close>. The double quote is code point 34.
\<close>

definition LAT_PREFIX :: pystr where
  "LAT_PREFIX = [34] @ u ''lat'' @ [34] @ u '': ''"

definition LONG_PREFIX :: pystr where
  "LONG_PREFIX = [34] @ u ''lng'' @ [34] @ u '': ''"

definition LAT__REGEX :: regex where
  "LAT__REGEX = Regex (map Lit LAT_PREFIX) [[Plus Digit, One AnyChar, Plus Digit]]"

definition LONG_REGEX :: regex where
  "LONG_REGEX = Regex (map Lit LONG_PREFIX) [[Plus Digit, One AnyChar, Plus Digit]]"

definition EXTRA_FEES_REGEX :: regex where
  "EXTRA_FEES_REGEX =
     Regex [] [[Plus Digit, Opt AnyChar, Star Digit, One (Lit MAN), One (Lit EN)],
               [One (Lit 45)]]"

section \<open>The scraper\<close>

subsection \<open>State\<close>

text \<open>
  The parsed listing page is read only through \<open>find\<close> and \<open>find_all\<close> with fixed tag and
  class arguments, followed by \<open>.text\<close>. The model of the page is what those queries
  return, in document order:
  \<^item> \<open>price_div\<close>: the text of the first \<open>div\<close> of class \<open>property_view_main-emphasis\<close>,
    \<open>None\<close> when \<open>find\<close> returns \<open>None\<close>;
  \<^item> \<open>price_span\<close>: the same for the first \<open>span\<close> of class \<open>property_view_note-emphasis\<close>;
  \<^item> \<open>data_bodies\<close>: the texts of \<open>find_all('div', class_='property_data-body')\<close>;
  \<^item> \<open>detail_bodies\<close>: for each \<open>div\<close> of class \<open>property_view_detail-body\<close>, the texts
    of its \<open>div\<close>s of class \<open>property_view_detail-text\<close>.

  A \<open>SuumoScrapper\<close> holds this page as \<open>soup\<close>, the text \<open>str(self.map_soup)\<close> of the map
  page as \<open>map_soup\<close>, and the cached rent \<open>monthly_price\<close>, which \<open>__init__\<close> sets to 0.
\<close>

record page =
  price_div :: "pystr option"
  price_span :: "pystr option"
  data_bodies :: "pystr list"
  detail_bodies :: "pystr list list"

record scrapper =
  soup :: page
  map_soup :: pystr
  monthly_price :: int

subsection \<open>\<open>scrap_coordinates\<close>\<close>

text \<open>\<open>.group(1)\<close> on the \<open>None\<close> of a failed search raises \<open>AttributeError\<close>.\<close>

definition scrap_coordinates :: "scrapper \<Rightarrow> error + (pystr \<times> pystr)" where
  "scrap_coordinates self =
     (case re_search LAT__REGEX (map_soup self) of
        None \<Rightarrow> Inl AttributeError
      | Some m1 \<Rightarrow>
          (case re_search LONG_REGEX (map_soup self) of
             None \<Rightarrow> Inl AttributeError
           | Some m2 \<Rightarrow> Inr (group1 m1, group1 m2)))"

subsection \<open>\<open>scrap_price\<close>\<close>

text \<open>
  The method assigns \<open>self.monthly_price\<close> before it reads the monthly fees, so it
  returns the new state together with its result or the exception it raised.
\<close>

definition scrap_price :: "scrapper \<Rightarrow> scrapper \<times> (error + (int \<times> int))" where
  "scrap_price self =
     (case (case price_div (soup self) of None \<Rightarrow> price_span (soup self) | Some t \<Rightarrow> Some t) of
        None \<Rightarrow> (self, Inl AttributeError)
      | Some monthly_price_raw \<Rightarrow>
          (case py_float (rstrip (lstrip monthly_price_raw CRNLTAB) MANEN) of
             Inl e \<Rightarrow> (self, Inl e)
           | Inr x \<Rightarrow>
               (case float_to_int (fmul x (Fin 10000)) of
                  Inl e \<Rightarrow> (self, Inl e)
                | Inr p \<Rightarrow>
                    (let self' = self\<lparr>monthly_price := p\<rparr>
                     in case index (data_bodies (soup self)) 0 of
                          Inl e \<Rightarrow> (self', Inl e)
                        | Inr monthly_fees_raw \<Rightarrow>
                            (case py_int (replace (rstrip monthly_fees_raw MANEN) 45 48) of
                               Inl e \<Rightarrow> (self', Inl e)
                             | Inr monthly_fees \<Rightarrow> (self', Inr (p, monthly_fees)))))))"

subsection \<open>\<open>scrap_other_fees\<close>\<close>

text \<open>
  \<open>fee_value\<close> is the expression \<open>float(t.rstrip('<U+4E07><U+5186>').replace('-','0'))\<close> that
  the method applies to each fee text. \<open>other_fees_fields\<close> is the first part of the
  method, up to the four values \<open>reikin\<close>, \<open>shikikin\<close>, \<open>hoken\<close> and \<open>other_fees\<close>;
  the fourth text is stripped with \<open>'r\n\t...'\<close>, whose first character is the letter r.
\<close>

definition fee_value :: "pystr \<Rightarrow> error + pyfloat" where
  "fee_value t = py_float (replace (rstrip t MANEN) 45 48)"

definition other_fees_fields :: "scrapper \<Rightarrow> error + (pyfloat \<times> pyfloat \<times> pyfloat \<times> pyfloat)" where
  "other_fees_fields self =
     (case index (data_bodies (soup self)) 1 of
        Inl e \<Rightarrow> Inl e
      | Inr reikin_shikikin_raw \<Rightarrow>
     (case re_search EXTRA_FEES_REGEX reikin_shikikin_raw of
        None \<Rightarrow> Inl AttributeError
      | Some reikin_shikinkin_res \<Rightarrow>
     (case fee_value (group0 reikin_shikinkin_res) of
        Inl e \<Rightarrow> Inl e
      | Inr reikin \<Rightarrow>
     (case fee_value (group1 reikin_shikinkin_res) of
        Inl e \<Rightarrow> Inl e
      | Inr shikikin \<Rightarrow>
     (case index (data_bodies (soup self)) 2 of
        Inl e \<Rightarrow> Inl e
      | Inr hoken_raw \<Rightarrow>
     (case fee_value (lstrip hoken_raw CRNLTAB) of
        Inl e \<Rightarrow> Inl e
      | Inr hoken \<Rightarrow>
     (case index (data_bodies (soup self)) 3 of
        Inl e \<Rightarrow> Inl e
      | Inr other_fees_raw \<Rightarrow>
     (case fee_value (lstrip other_fees_raw [114, 10, 9]) of
        Inl e \<Rightarrow> Inl e
      | Inr other_fees \<Rightarrow> Inr (reikin, shikikin, hoken, other_fees)))))))))"

definition diagnostic :: string where
  "diagnostic = ''Error, monthly price not correctly output so not possible to calculate fees in months''"

text \<open>
  The result is the returned number and the lines printed. \<open>total_months\<close> starts as the
  integer 0 and becomes a float only on the branch that divides.
\<close>

definition scrap_other_fees :: "scrapper \<Rightarrow> error + (pynum \<times> string list)" where
  "scrap_other_fees self =
     (case other_fees_fields self of
        Inl e \<Rightarrow> Inl e
      | Inr (reikin, shikikin, hoken, other_fees) \<Rightarrow>
          (let total = fadd (fadd (fadd reikin shikikin) hoken) other_fees
           in if monthly_price self = 0 then Inr (PyInt 0, [diagnostic])
              else case int_to_float (monthly_price self) of
                     Inl e \<Rightarrow> Inl e
                   | Inr d \<Rightarrow>
                       (case fdiv (fmul total (Fin 10000)) d of
                          Inl e \<Rightarrow> Inl e
                        | Inr total_months \<Rightarrow> Inr (PyFloat total_months, []))))"

subsection \<open>\<open>scrap_closest_stations\<close>\<close>

definition scrap_closest_stations :: "scrapper \<Rightarrow> error + pystr" where
  "scrap_closest_stations self =
     (case index (detail_bodies (soup self)) 2 of
        Inl e \<Rightarrow> Inl e
      | Inr stations_raw \<Rightarrow>
          Inr (slice_to (foldl (\<lambda>stations station. stations @ station @ [10]) [] stations_raw) (- 1)))"

subsection \<open>The positional fields\<close>

definition scrap_bukken_type :: "scrapper \<Rightarrow> error + pystr" where
  "scrap_bukken_type self =
     (case index (data_bodies (soup self)) 7 of
        Inl e \<Rightarrow> Inl e
      | Inr t \<Rightarrow> Inr (lstrip t CRNLTAB))"

definition scrap_madori :: "scrapper \<Rightarrow> error + pystr" where
  "scrap_madori self =
     (case index (data_bodies (soup self)) 4 of
        Inl e \<Rightarrow> Inl e
      | Inr t \<Rightarrow> Inr (lstrip t CRNLTAB))"

definition scrap_surface :: "scrapper \<Rightarrow> error + pyfloat" where
  "scrap_surface self =
     (case index (data_bodies (soup self)) 5 of
        Inl e \<Rightarrow> Inl e
      | Inr t \<Rightarrow> py_float (rstrip (lstrip t CRNLTAB) (u ''m2'')))"

definition scrap_age :: "scrapper \<Rightarrow> error + pystr" where
  "scrap_age self =
     (case index (data_bodies (soup self)) 8 of
        Inl e \<Rightarrow> Inl e
      | Inr t \<Rightarrow> Inr (lstrip t CRNLTAB))"

section \<open>Vocabulary of the specification\<close>

text \<open>
  \<open>join_nl\<close> is \<open>'\n'.join(fragments)\<close>: the fragments separated by single newlines,
  with no separator after the last one.
\<close>

fun join_nl :: "pystr list \<Rightarrow> pystr" where
  "join_nl [] = []"
| "join_nl [x] = x"
| "join_nl (x # y # ys) = x @ [10] @ join_nl (y # ys)"

text \<open>
  The language of a sequence of regex items, independent of the order in which the
  matcher tries the repetitions: \<open>matches r w\<close> holds when the whole of \<open>w\<close> is a match
  of \<open>r\<close>.
\<close>

fun matches :: "item list \<Rightarrow> pystr \<Rightarrow> bool" where
  "matches [] w = (w = [])"
| "matches (One a # r) [] = False"
| "matches (One a # r) (c # w) = (accepts a c \<and> matches r w)"
| "matches (Opt a # r) [] = matches r []"
| "matches (Opt a # r) (c # w) = (matches r (c # w) \<or> accepts a c \<and> matches r w)"
| "matches (Star a # r) [] = matches r []"
| "matches (Star a # r) (c # w) = (matches r (c # w) \<or> accepts a c \<and> matches (Star a # r) w)"
| "matches (Plus a # r) [] = False"
| "matches (Plus a # r) (c # w) = (accepts a c \<and> matches (Star a # r) w)"

text \<open>
  A coordinate text is a match of the group \<open>\d+.\d+\<close> of the two coordinate patterns.
  \<open>no_digit_first s\<close> says that \<open>s\<close> does not continue a run of digits, and
  \<open>contains p s\<close> that \<open>p\<close> occurs in \<open>s\<close> as a substring.
\<close>

definition coordinate_text :: "pystr \<Rightarrow> bool" where
  "coordinate_text w = matches [Plus Digit, One AnyChar, Plus Digit] w"

definition no_digit_first :: "pystr \<Rightarrow> bool" where
  "no_digit_first s = (case s of [] \<Rightarrow> True | c # _ \<Rightarrow> \<not> is_digit c)"

fun contains :: "pystr \<Rightarrow> pystr \<Rightarrow> bool" where
  "contains p [] = (p = [])"
| "contains p (c # cs) = (take (length p) (c # cs) = p \<or> contains p cs)"

text \<open>
  A page on which every query finds nothing; the example pages are updates of it.
\<close>

definition blank_page :: page where
  "blank_page = \<lparr>price_div = None, price_span = None, data_bodies = [], detail_bodies = []\<rparr>"

section \<open>Auxiliary lemmas\<close>

subsection \<open>Indexing, slicing and joining\<close>

lemma index_Inr: "i < length xs \<Longrightarrow> index xs i = Inr (xs ! i)"
  by (simp add: index_def)

lemma index_error: "index xs i = Inl e \<Longrightarrow> e = IndexError"
  by (auto simp: index_def split: if_splits)

lemma foldl_stations:
  "foldl (\<lambda>stations station. stations @ station @ [10]) acc xs = acc @ concat (map (\<lambda>t. t @ [10]) xs)"
  by (induction xs arbitrary: acc) simp_all

lemma slice_to_minus1: "slice_to s (- 1) = butlast s"
proof -
  have "nat (max 0 (int (length s) + - 1)) = length s - 1"
    by (cases s) simp_all
  then show ?thesis
    by (simp add: slice_to_def Let_def butlast_conv_take)
qed

lemma butlast_concat_nl: "xs \<noteq> [] \<Longrightarrow> butlast (concat (map (\<lambda>t. t @ [10]) xs)) = join_nl xs"
  by (induction xs rule: join_nl.induct) (simp_all add: butlast_append)

subsection \<open>The matcher against the language of a pattern\<close>

lemma match_items_sound:
  "match_items r s = Some n \<Longrightarrow> n \<le> length s \<and> matches r (take n s)"
proof (induction r s arbitrary: n rule: match_items.induct)
  case (5 a r c cs)
  show ?case
  proof (cases "accepts a c")
    case True
    show ?thesis
    proof (cases "match_items r cs")
      case None
      with True "5.prems" have "match_items r (c # cs) = Some n" by simp
      with "5.IH"(2)[OF True None] have *: "n \<le> length (c # cs)" "matches r (take n (c # cs))" by auto
      then show ?thesis by (cases n) auto
    next
      case (Some k)
      with True "5.prems" have n: "n = Suc k" by simp
      from "5.IH"(1)[OF True Some] show ?thesis using True by (simp add: n)
    qed
  next
    case False
    with "5.prems" have "match_items r (c # cs) = Some n" by simp
    with "5.IH"(3)[OF False] have *: "n \<le> length (c # cs)" "matches r (take n (c # cs))" by auto
    then show ?thesis by (cases n) auto
  qed
next
  case (7 a r c cs)
  show ?case
  proof (cases "accepts a c")
    case True
    show ?thesis
    proof (cases "match_items (Star a # r) cs")
      case None
      with True "7.prems" have "match_items r (c # cs) = Some n" by simp
      with "7.IH"(2)[OF True None] have *: "n \<le> length (c # cs)" "matches r (take n (c # cs))" by auto
      then show ?thesis by (cases n) auto
    next
      case (Some k)
      with True "7.prems" have n: "n = Suc k" by simp
      from "7.IH"(1)[OF True Some] show ?thesis using True by (simp add: n)
    qed
  next
    case False
    with "7.prems" have "match_items r (c # cs) = Some n" by simp
    with "7.IH"(3)[OF False] have *: "n \<le> length (c # cs)" "matches r (take n (c # cs))" by auto
    then show ?thesis by (cases n) auto
  qed
qed (auto split: if_splits)

lemma match_items_skip_Opt: "match_items r t \<noteq> None \<Longrightarrow> match_items (Opt a # r) t \<noteq> None"
  by (cases t) (auto split: option.splits)

lemma match_items_skip_Star: "match_items r t \<noteq> None \<Longrightarrow> match_items (Star a # r) t \<noteq> None"
  by (cases t) (auto split: option.splits)

lemma match_items_complete:
  "matches r w \<Longrightarrow> match_items r (w @ t) \<noteq> None"
proof (induction r w rule: matches.induct)
  case (4 a r)
  then show ?case using match_items_skip_Opt[of r t a] by simp
next
  case (6 a r)
  then show ?case using match_items_skip_Star[of r t a] by simp
qed (auto split: option.splits)

lemma match_items_prefix:
  "match_items (map One (map Lit p) @ r) (p @ s) = map_option (\<lambda>n. length p + n) (match_items r s)"
  by (induction p) (simp_all add: option.map_comp comp_def option.map_ident)

lemma match_items_prefix_sound:
  "match_items (map One (map Lit p) @ r) s = Some n \<Longrightarrow>
     \<exists>s' k. s = p @ s' \<and> n = length p + k \<and> match_items r s' = Some k"
proof (induction p arbitrary: s n)
  case Nil
  then show ?case by simp
next
  case (Cons x p)
  then obtain c cs where s: "s = c # cs" by (cases s) auto
  with Cons.prems have cx: "c = x" and "map_option Suc (match_items (map One (map Lit p) @ r) cs) = Some n"
    by (auto split: if_splits)
  then obtain m where m: "match_items (map One (map Lit p) @ r) cs = Some m" "n = Suc m" by auto
  from Cons.IH[OF m(1)] obtain s' k where "cs = p @ s'" "m = length p + k" "match_items r s' = Some k" by auto
  with s cx m(2) show ?case by auto
qed

lemma match_alts_prefix_sound:
  "match_alts (map Lit p) alts s = Some n \<Longrightarrow> take (length p) s = p"
proof (induction alts)
  case Nil
  then show ?case by simp
next
  case (Cons alt alts)
  show ?case
  proof (cases "match_items (map One (map Lit p) @ alt) s")
    case None
    with Cons show ?thesis by simp
  next
    case (Some k)
    from match_items_prefix_sound[OF Some] show ?thesis by auto
  qed
qed

lemma match_items_Star_greedy:
  "list_all (accepts a) ds \<Longrightarrow> match_items (Star a # r) t = Some n \<Longrightarrow>
     match_items (Star a # r) (ds @ t) = Some (length ds + n)"
  by (induction ds) simp_all

lemma match_items_Star_stop:
  "no_digit_first t \<Longrightarrow> match_items (Star Digit # r) t = match_items r t"
  by (cases t) (simp_all add: no_digit_first_def)

lemma match_coordinate_exact:
  assumes "d1 \<noteq> []" "list_all is_digit d1" "d2 \<noteq> []" "list_all is_digit d2" "no_digit_first b"
  shows "match_items [Plus Digit, One AnyChar, Plus Digit] (d1 @ [46] @ d2 @ b)
           = Some (length d1 + 1 + length d2)"
proof -
  obtain x d1' where d1: "d1 = x # d1'" using assms(1) by (cases d1) auto
  obtain y d2' where d2: "d2 = y # d2'" using assms(3) by (cases d2) auto
  have acc: "accepts Digit = is_digit" by (rule ext) simp
  have "match_items [Star Digit] b = Some 0"
    using match_items_Star_stop[OF assms(5), of "[]"] by simp
  with assms(4) have "match_items [Star Digit] (d2' @ b) = Some (length d2' + 0)"
    using match_items_Star_greedy[of Digit d2' "[]" b 0] by (simp add: d2 acc)
  with assms(4) have p2: "match_items [Plus Digit] (d2 @ b) = Some (length d2)"
    by (simp add: d2)
  have nd: "no_digit_first (46 # d2 @ b)" by (simp add: no_digit_first_def is_digit_def digit_value_def)
  have "match_items [Star Digit, One AnyChar, Plus Digit] (46 # d2 @ b) = Some (Suc (length d2))"
    using match_items_Star_stop[OF nd, of "[One AnyChar, Plus Digit]"] p2 by simp
  with assms(2) have "match_items [Star Digit, One AnyChar, Plus Digit] (d1' @ 46 # d2 @ b)
      = Some (length d1' + Suc (length d2))"
    using match_items_Star_greedy[of Digit d1' "[One AnyChar, Plus Digit]" "46 # d2 @ b" "Suc (length d2)"]
    by (simp add: d1 acc)
  with assms(2) show ?thesis by (simp add: d1)
qed

subsection \<open>Searching\<close>

lemma re_search_skip:
  "match_here r x = Some m \<Longrightarrow> \<exists>m'. re_search r (a @ x) = Some m'"
proof (induction a)
  case Nil
  then show ?case by (cases x) simp_all
next
  case (Cons c a)
  then show ?case by (cases "match_here r (c # a @ x)") auto
qed

lemma re_search_sound:
  "re_search r s = Some m \<Longrightarrow> \<exists>a b. s = a @ b \<and> match_here r b = Some m"
proof (induction s)
  case Nil
  then show ?case by simp
next
  case (Cons c cs)
  show ?case
  proof (cases "match_here r (c # cs)")
    case None
    with Cons.prems have "re_search r cs = Some m" by simp
    from Cons.IH[OF this] obtain a b where "cs = a @ b" "match_here r b = Some m" by auto
    then have "c # cs = (c # a) @ b \<and> match_here r b = Some m" by simp
    then show ?thesis by blast
  next
    case (Some m')
    with Cons.prems have "m' = m" by simp
    with Some have "c # cs = [] @ (c # cs) \<and> match_here r (c # cs) = Some m" by simp
    then show ?thesis by blast
  qed
qed

lemma match_here_single_sound:
  assumes "match_here (Regex (map Lit p) [alt]) s = Some m"
  shows "\<exists>w t. s = p @ w @ t \<and> group0 m = p @ w \<and> group1 m = w \<and> matches alt w"
proof -
  from assms obtain n where n: "match_items (map One (map Lit p) @ alt) s = Some n"
    and m: "m = \<lparr>group0 = take n s, group1 = drop (length (map Lit p)) (take n s)\<rparr>"
    by (auto split: option.splits)
  from match_items_prefix_sound[OF n] obtain s' k where
    s: "s = p @ s'" and nk: "n = length p + k" and k: "match_items alt s' = Some k" by auto
  from match_items_sound[OF k] have kl: "k \<le> length s'" and mt: "matches alt (take k s')" by auto
  have "s = p @ take k s' @ drop k s'" using s by simp
  moreover have "group0 m = p @ take k s'" using m s nk by simp
  moreover have "group1 m = take k s'" using m s nk by simp
  ultimately show ?thesis using mt by blast
qed

lemma match_here_single_complete:
  assumes "matches alt w"
  shows "\<exists>m. match_here (Regex (map Lit p) [alt]) (p @ w @ t) = Some m"
proof -
  from match_items_complete[OF assms, of t] obtain k where "match_items alt (w @ t) = Some k" by auto
  with match_items_prefix[of p alt "w @ t"]
  have "match_items (map One (map Lit p) @ alt) (p @ w @ t) = Some (length p + k)"
    by simp
  then show ?thesis by simp
qed

lemma re_search_single:
  assumes "s = a @ p @ w @ t" "matches alt w"
  shows "\<exists>m x y v. re_search (Regex (map Lit p) [alt]) s = Some m \<and> group1 m = v \<and>
           matches alt v \<and> s = x @ p @ v @ y"
proof -
  from match_here_single_complete[OF assms(2), of p t] obtain m0 where
    "match_here (Regex (map Lit p) [alt]) (p @ w @ t) = Some m0" by auto
  from re_search_skip[OF this, of a] assms(1) obtain m where
    m: "re_search (Regex (map Lit p) [alt]) s = Some m" by auto
  from re_search_sound[OF m] obtain x b where xb: "s = x @ b" "match_here (Regex (map Lit p) [alt]) b = Some m"
    by auto
  from match_here_single_sound[OF xb(2)] obtain v y where
    "b = p @ v @ y" "group1 m = v" "matches alt v" by auto
  with m xb(1) show ?thesis by blast
qed

lemma take_append_le: "n \<le> length xs \<Longrightarrow> take n (xs @ ys) = take n xs"
  by simp

lemma re_search_first_occurrence:
  assumes "\<not> contains p (a @ butlast p)" "p \<noteq> []"
  shows "re_search (Regex (map Lit p) alts) (a @ p @ s) = re_search (Regex (map Lit p) alts) (p @ s)"
  using assms(1)
proof (induction a)
  case Nil
  then show ?case by simp
next
  case (Cons c a)
  let ?X = "c # a @ butlast p"
  from Cons.prems have nt: "take (length p) ?X \<noteq> p" and nc: "\<not> contains p (a @ butlast p)"
    by auto
  have split: "c # a @ p @ s = ?X @ (last p # s)"
    using assms(2) append_butlast_last_id[of p] by (metis append.assoc append_Cons append_Nil)
  have "take (length p) (c # a @ p @ s) = take (length p) ?X"
    unfolding split by (rule take_append_le) simp
  with nt have "take (length p) (c # a @ p @ s) \<noteq> p" by simp
  then have "match_alts (map Lit p) alts (c # a @ p @ s) = None"
    using match_alts_prefix_sound[of p alts "c # a @ p @ s"] by (cases "match_alts (map Lit p) alts (c # a @ p @ s)") auto
  then have "match_here (Regex (map Lit p) alts) (c # a @ p @ s) = None" by simp
  with Cons.IH[OF nc] show ?case by simp
qed

lemma re_search_coordinate_first:
  assumes "s = a @ p @ d1 @ [46] @ d2 @ b" "\<not> contains p (a @ butlast p)" "p \<noteq> []"
    "d1 \<noteq> []" "list_all is_digit d1" "d2 \<noteq> []" "list_all is_digit d2" "no_digit_first b"
  shows "map_option group1 (re_search (Regex (map Lit p) [[Plus Digit, One AnyChar, Plus Digit]]) s)
           = Some (d1 @ [46] @ d2)"
proof -
  let ?alt = "[Plus Digit, One AnyChar, Plus Digit]"
  let ?w = "d1 @ [46] @ d2"
  obtain q p' where p: "p = q # p'" using assms(3) by (cases p) auto
  have "match_items (map One (map Lit p) @ ?alt) (p @ ?w @ b)
          = Some (length p + (length d1 + 1 + length d2))"
    using match_items_prefix[of p ?alt "?w @ b"] match_coordinate_exact[OF assms(4-8)] by simp
  then have "match_here (Regex (map Lit p) [?alt]) (p @ ?w @ b)
          = Some \<lparr>group0 = p @ ?w, group1 = ?w\<rparr>"
    by simp
  then have "re_search (Regex (map Lit p) [?alt]) (p @ ?w @ b) = Some \<lparr>group0 = p @ ?w, group1 = ?w\<rparr>"
    by (simp add: p)
  moreover have "re_search (Regex (map Lit p) [?alt]) s = re_search (Regex (map Lit p) [?alt]) (p @ ?w @ b)"
    using re_search_first_occurrence[OF assms(2,3), of "[?alt]" "?w @ b"] assms(1) by simp
  ultimately show ?thesis by simp
qed

lemma coordinate_text_digits:
  assumes "d1 \<noteq> []" "list_all is_digit d1" "d2 \<noteq> []" "list_all is_digit d2"
  shows "coordinate_text (d1 @ [46] @ d2)"
proof -
  have "no_digit_first []" by (simp add: no_digit_first_def)
  from match_coordinate_exact[OF assms this]
  have "match_items [Plus Digit, One AnyChar, Plus Digit] (d1 @ [46] @ d2) = Some (length (d1 @ [46] @ d2))"
    by simp
  from match_items_sound[OF this] show ?thesis by (simp add: coordinate_text_def)
qed



subsection \<open>Conversions\<close>

lemma unicode_digits_accepted:
  "py_float [1633] = Inr (Fin 1) \<and> py_int [1637] = Inr 5
   \<and> py_float ([65301] @ u ''.'' @ [65296, 65298]) = py_float (u ''5.02'')
   \<and> is_digit 65301 \<and> \<not> is_digit 65306 \<and> \<not> is_digit 19975"
  by code_simp

lemma py_float_error: "py_float s = Inl e \<Longrightarrow> e = ValueError"
  by (auto simp: py_float_def Let_def split: option.splits prod.splits if_splits)

lemma fee_value_error: "fee_value t = Inl e \<Longrightarrow> e = ValueError"
  by (simp add: fee_value_def py_float_error)

lemma other_fees_fields_error:
  "other_fees_fields self = Inl e \<Longrightarrow> e = IndexError \<or> e = AttributeError \<or> e = ValueError"
  unfolding other_fees_fields_def
  by (auto split: sum.splits option.splits dest: fee_value_error index_error)

section \<open>The claims\<close>

subsection \<open>Fees in months when the cached rent is zero\<close>

text \<open>
  Claim C1, as stated, at a concrete input: on a page without any fee block the cached
  rent is 0 and \<open>scrap_other_fees\<close> raises \<open>IndexError\<close>. The four fee fields are read
  before the rent is looked at, so a rent of 0 alone does not make the call return.
\<close>

theorem scrap_other_fees_zero_rent_counterexample:
  "monthly_price \<lparr>soup = blank_page, map_soup = [], monthly_price = 0\<rparr> = 0
   \<and> scrap_other_fees \<lparr>soup = blank_page, map_soup = [], monthly_price = 0\<rparr> = Inl IndexError"
  by code_simp

text \<open>
  Claim C1, amended: when the cached rent is 0 and the four fee fields are read without an
  error, \<open>scrap_other_fees\<close> skips the division, prints the diagnostic message and
  returns the integer 0; when reading the fee fields raises, the call raises that same
  error, which is never \<open>ZeroDivisionError\<close>.
\<close>

theorem scrap_other_fees_zero_rent:
  assumes "monthly_price self = 0"
  shows "(\<forall>v. other_fees_fields self = Inr v \<longrightarrow> scrap_other_fees self = Inr (PyInt 0, [diagnostic]))
       \<and> (\<forall>e. other_fees_fields self = Inl e \<longrightarrow> scrap_other_fees self = Inl e \<and> e \<noteq> ZeroDivisionError)"
proof (intro conjI allI impI)
  fix v assume "other_fees_fields self = Inr v"
  then show "scrap_other_fees self = Inr (PyInt 0, [diagnostic])"
    using assms by (cases v) (simp add: scrap_other_fees_def)
next
  fix e assume e: "other_fees_fields self = Inl e"
  then show "scrap_other_fees self = Inl e" by (simp add: scrap_other_fees_def)
  from other_fees_fields_error[OF e] show "e \<noteq> ZeroDivisionError" by auto
qed

text \<open>
  The amended statement at a page whose fee blocks read \<open>-\<close>, \<open>5<U+4E07><U+5186>/10<U+4E07><U+5186>\<close>, \<open>2<U+4E07><U+5186>\<close>
  and \<open>-\<close>, with the rent still 0.
\<close>

theorem scrap_other_fees_zero_rent_witness:
  "monthly_price \<lparr>soup = blank_page\<lparr>data_bodies := [u ''-'', u ''5'' @ MANEN @ u ''/10'' @ MANEN, u ''2'' @ MANEN, u ''-'']\<rparr>,
       map_soup = [], monthly_price = 0\<rparr> = 0
   \<and> other_fees_fields \<lparr>soup = blank_page\<lparr>data_bodies := [u ''-'', u ''5'' @ MANEN @ u ''/10'' @ MANEN, u ''2'' @ MANEN, u ''-'']\<rparr>,
       map_soup = [], monthly_price = 0\<rparr> = Inr (Fin 5, Fin 5, Fin 2, Fin 0)
   \<and> scrap_other_fees \<lparr>soup = blank_page\<lparr>data_bodies := [u ''-'', u ''5'' @ MANEN @ u ''/10'' @ MANEN, u ''2'' @ MANEN, u ''-'']\<rparr>,
       map_soup = [], monthly_price = 0\<rparr> = Inr (PyInt 0, [diagnostic])"
proof -
  let ?s = "\<lparr>soup = blank_page\<lparr>data_bodies := [u ''-'', u ''5'' @ MANEN @ u ''/10'' @ MANEN, u ''2'' @ MANEN, u ''-'']\<rparr>,
       map_soup = [], monthly_price = 0\<rparr>"
  have h: "monthly_price ?s = 0" by simp
  have f: "other_fees_fields ?s = Inr (Fin 5, Fin 5, Fin 2, Fin 0)" by code_simp
  from scrap_other_fees_zero_rent[OF h] f
  have "scrap_other_fees ?s = Inr (PyInt 0, [diagnostic])" by blast
  with h f show ?thesis by blast
qed

subsection \<open>Conversion of the rent to yen\<close>

text \<open>
  Claim C2 says that a price text \<open><number><U+4E07><U+5186>\<close> is converted to \<open>round(number * 10000)\<close>.
  \<open>scrap_price\<close> computes \<open>int(float(number) * 10000)\<close>, which truncates the product of
  two doubles: for the price text \<open>5.02<U+4E07><U+5186>\<close> (and a fee block \<open>5000<U+5186>\<close>) the double product
  is just below 50200 and the method returns 50199, whereas \<open>5.02 * 10000\<close> is 50200.
\<close>

theorem scrap_price_off_by_one:
  "snd (scrap_price \<lparr>soup = blank_page\<lparr>price_div := Some (u ''5.02'' @ MANEN), data_bodies := [u ''5000'' @ [EN]]\<rparr>,
          map_soup = [], monthly_price = 0\<rparr>) = Inr (50199, 5000)
   \<and> (502 / 100 * 10000 :: rat) = 50200"
proof
  show "snd (scrap_price \<lparr>soup = blank_page\<lparr>price_div := Some (u ''5.02'' @ MANEN), data_bodies := [u ''5000'' @ [EN]]\<rparr>,
          map_soup = [], monthly_price = 0\<rparr>) = Inr (50199, 5000)"
    by code_simp
  show "(502 / 100 * 10000 :: rat) = 50200"
    by simp
qed

subsection \<open>Fees in months for a rent of 50000 and fees of 150000\<close>

text \<open>
  Claim C3 says that with a cached rent of 50000 yen and four one-time fee fields that sum
  to 150000 yen the method returns 3.0. On the page whose fee blocks read \<open>10<U+4E07><U+5186>/-\<close>,
  \<open>2.5<U+4E07><U+5186>\<close> and \<open>2.5<U+4E07><U+5186>\<close> the four fee fields are 10, 0, 2.5 and 2.5 (in units of 10000
  yen), which sum to 15, in double precision as well as exactly. \<open>scrap_other_fees\<close> takes
  both \<open>reikin\<close> and \<open>shikikin\<close> from the first amount of the first block, never reads the
  second, and returns 5.0.
\<close>

theorem scrap_other_fees_second_amount_not_read:
  "fee_value (u ''10'' @ MANEN) = Inr (Fin 10)
   \<and> fee_value (u ''-'') = Inr (Fin 0)
   \<and> fee_value (u ''2.5'' @ MANEN) = Inr (Fin (5 / 2))
   \<and> fadd (fadd (fadd (Fin 10) (Fin 0)) (Fin (5 / 2))) (Fin (5 / 2)) = Fin 15
   \<and> other_fees_fields \<lparr>soup = blank_page\<lparr>data_bodies := [u ''-'', u ''10'' @ MANEN @ u ''/-'', u ''2.5'' @ MANEN, u ''2.5'' @ MANEN]\<rparr>,
        map_soup = [], monthly_price = 50000\<rparr> = Inr (Fin 10, Fin 10, Fin (5 / 2), Fin (5 / 2))
   \<and> scrap_other_fees \<lparr>soup = blank_page\<lparr>data_bodies := [u ''-'', u ''10'' @ MANEN @ u ''/-'', u ''2.5'' @ MANEN, u ''2.5'' @ MANEN]\<rparr>,
        map_soup = [], monthly_price = 50000\<rparr> = Inr (PyFloat (Fin 5), [])"
proof (intro conjI)
  show "fee_value (u ''10'' @ MANEN) = Inr (Fin 10)" by code_simp
  show "fee_value (u ''-'') = Inr (Fin 0)" by code_simp
  show "fee_value (u ''2.5'' @ MANEN) = Inr (Fin (5 / 2))" by code_simp
  show "fadd (fadd (fadd (Fin 10) (Fin 0)) (Fin (5 / 2))) (Fin (5 / 2)) = Fin 15" by code_simp
  show "other_fees_fields \<lparr>soup = blank_page\<lparr>data_bodies := [u ''-'', u ''10'' @ MANEN @ u ''/-'', u ''2.5'' @ MANEN, u ''2.5'' @ MANEN]\<rparr>,
        map_soup = [], monthly_price = 50000\<rparr> = Inr (Fin 10, Fin 10, Fin (5 / 2), Fin (5 / 2))"
    by code_simp
  show "scrap_other_fees \<lparr>soup = blank_page\<lparr>data_bodies := [u ''-'', u ''10'' @ MANEN @ u ''/-'', u ''2.5'' @ MANEN, u ''2.5'' @ MANEN]\<rparr>,
        map_soup = [], monthly_price = 50000\<rparr> = Inr (PyFloat (Fin 5), [])"
    by code_simp
qed

subsection \<open>The first fee is counted twice\<close>



subsection \<open>The surface\<close>

text \<open>
  Claim C5 says that stripping the suffix \<open>m2\<close> from \<open><number>m2\<close> leaves the numeral.
  \<open>rstrip('m2')\<close> removes every trailing character that is an \<open>m\<close> or a \<open>2\<close>, so it also
  removes a final digit 2 of the numeral: for the block text \<open>25.12m2\<close> the method returns
  \<open>float('25.1')\<close>, which differs from \<open>float('25.12')\<close>.
\<close>

theorem scrap_surface_strips_digit:
  "scrap_surface \<lparr>soup = blank_page\<lparr>data_bodies := [[], [], [], [], [], u ''25.12m2'']\<rparr>,
       map_soup = [], monthly_price = 0\<rparr> = py_float (u ''25.1'')
   \<and> py_float (u ''25.1'') = Inr (Fin (3532510957718733 / 140737488355328))
   \<and> py_float (u ''25.12'') = Inr (Fin (7070651414971679 / 281474976710656))"
proof (intro conjI)
  show "scrap_surface \<lparr>soup = blank_page\<lparr>data_bodies := [[], [], [], [], [], u ''25.12m2'']\<rparr>,
       map_soup = [], monthly_price = 0\<rparr> = py_float (u ''25.1'')"
    by code_simp
  show "py_float (u ''25.1'') = Inr (Fin (3532510957718733 / 140737488355328))"
    by code_simp
  show "py_float (u ''25.12'') = Inr (Fin (7070651414971679 / 281474976710656))"
    by code_simp
qed

subsection \<open>The coordinates\<close>

text \<open>
  Claim C6, as stated, at three pages that contain both \<open>"lat": 35.6895\<close> and
  \<open>"lng": 139.6917\<close>: when a further digit follows the latitude, the method returns the
  longer run of digits (\<open>35.68951\<close>, and likewise with the full-width digit five, code
  point 65301); when an earlier \<open>"lat": 1.5\<close> stands in the page, it returns \<open>1.5\<close>. The
  search returns the leftmost match and \<open>\d+\<close> takes every digit it finds.
\<close>

theorem scrap_coordinates_matched_strings_counterexample:
  "contains (LAT_PREFIX @ u ''35.6895'') (u ''{'' @ LAT_PREFIX @ u ''35.68951, '' @ LONG_PREFIX @ u ''139.6917}'')
   \<and> contains (LONG_PREFIX @ u ''139.6917'') (u ''{'' @ LAT_PREFIX @ u ''35.68951, '' @ LONG_PREFIX @ u ''139.6917}'')
   \<and> scrap_coordinates \<lparr>soup = blank_page, map_soup = u ''{'' @ LAT_PREFIX @ u ''35.68951, '' @ LONG_PREFIX @ u ''139.6917}'', monthly_price = 0\<rparr>
      = Inr (u ''35.68951'', u ''139.6917'')
   \<and> contains (LAT_PREFIX @ u ''35.6895'') (u ''{'' @ LAT_PREFIX @ u ''1.5, '' @ LAT_PREFIX @ u ''35.6895, '' @ LONG_PREFIX @ u ''139.6917}'')
   \<and> contains (LONG_PREFIX @ u ''139.6917'') (u ''{'' @ LAT_PREFIX @ u ''1.5, '' @ LAT_PREFIX @ u ''35.6895, '' @ LONG_PREFIX @ u ''139.6917}'')
   \<and> scrap_coordinates \<lparr>soup = blank_page, map_soup = u ''{'' @ LAT_PREFIX @ u ''1.5, '' @ LAT_PREFIX @ u ''35.6895, '' @ LONG_PREFIX @ u ''139.6917}'', monthly_price = 0\<rparr>
      = Inr (u ''1.5'', u ''139.6917'')
   \<and> contains (LAT_PREFIX @ u ''35.6895'') (u ''{'' @ LAT_PREFIX @ u ''35.6895'' @ [65301] @ u '', '' @ LONG_PREFIX @ u ''139.6917}'')
   \<and> contains (LONG_PREFIX @ u ''139.6917'') (u ''{'' @ LAT_PREFIX @ u ''35.6895'' @ [65301] @ u '', '' @ LONG_PREFIX @ u ''139.6917}'')
   \<and> scrap_coordinates \<lparr>soup = blank_page, map_soup = u ''{'' @ LAT_PREFIX @ u ''35.6895'' @ [65301] @ u '', '' @ LONG_PREFIX @ u ''139.6917}'', monthly_price = 0\<rparr>
      = Inr (u ''35.6895'' @ [65301], u ''139.6917'')"
proof (intro conjI)
  show "contains (LAT_PREFIX @ u ''35.6895'') (u ''{'' @ LAT_PREFIX @ u ''35.68951, '' @ LONG_PREFIX @ u ''139.6917}'')"
    by code_simp
  show "contains (LONG_PREFIX @ u ''139.6917'') (u ''{'' @ LAT_PREFIX @ u ''35.68951, '' @ LONG_PREFIX @ u ''139.6917}'')"
    by code_simp
  show "scrap_coordinates \<lparr>soup = blank_page, map_soup = u ''{'' @ LAT_PREFIX @ u ''35.68951, '' @ LONG_PREFIX @ u ''139.6917}'', monthly_price = 0\<rparr>
      = Inr (u ''35.68951'', u ''139.6917'')"
    by code_simp
  show "contains (LAT_PREFIX @ u ''35.6895'') (u ''{'' @ LAT_PREFIX @ u ''1.5, '' @ LAT_PREFIX @ u ''35.6895, '' @ LONG_PREFIX @ u ''139.6917}'')"
    by code_simp
  show "contains (LONG_PREFIX @ u ''139.6917'') (u ''{'' @ LAT_PREFIX @ u ''1.5, '' @ LAT_PREFIX @ u ''35.6895, '' @ LONG_PREFIX @ u ''139.6917}'')"
    by code_simp
  show "scrap_coordinates \<lparr>soup = blank_page, map_soup = u ''{'' @ LAT_PREFIX @ u ''1.5, '' @ LAT_PREFIX @ u ''35.6895, '' @ LONG_PREFIX @ u ''139.6917}'', monthly_price = 0\<rparr>
      = Inr (u ''1.5'', u ''139.6917'')"
    by code_simp
  show "contains (LAT_PREFIX @ u ''35.6895'') (u ''{'' @ LAT_PREFIX @ u ''35.6895'' @ [65301] @ u '', '' @ LONG_PREFIX @ u ''139.6917}'')"
    by code_simp
  show "contains (LONG_PREFIX @ u ''139.6917'') (u ''{'' @ LAT_PREFIX @ u ''35.6895'' @ [65301] @ u '', '' @ LONG_PREFIX @ u ''139.6917}'')"
    by code_simp
  show "scrap_coordinates \<lparr>soup = blank_page, map_soup = u ''{'' @ LAT_PREFIX @ u ''35.6895'' @ [65301] @ u '', '' @ LONG_PREFIX @ u ''139.6917}'', monthly_price = 0\<rparr>
      = Inr (u ''35.6895'' @ [65301], u ''139.6917'')"
    by code_simp
qed

text \<open>
  Claim C6, amended: when the text of the map page contains \<open>"lat": \<close> followed by digits,
  a point and digits, and \<open>"lng": \<close> followed by digits, a point and digits,
  \<open>scrap_coordinates\<close> returns a pair of strings, the latitude first: each is a coordinate
  text that stands in the page right after its key. When moreover the given occurrence
  of a key is the first one in the page and no decimal digit follows the number, the
  string returned is that number.
\<close>

theorem scrap_coordinates_matched_strings:
  assumes "map_soup self = a @ LAT_PREFIX @ d1 @ [46] @ d2 @ b"
    and "d1 \<noteq> []" "list_all is_digit d1" "d2 \<noteq> []" "list_all is_digit d2"
    and "map_soup self = a' @ LONG_PREFIX @ e1 @ [46] @ e2 @ b'"
    and "e1 \<noteq> []" "list_all is_digit e1" "e2 \<noteq> []" "list_all is_digit e2"
  shows "\<exists>lat lng. scrap_coordinates self = Inr (lat, lng)
           \<and> coordinate_text lat \<and> (\<exists>x y. map_soup self = x @ LAT_PREFIX @ lat @ y)
           \<and> coordinate_text lng \<and> (\<exists>x y. map_soup self = x @ LONG_PREFIX @ lng @ y)
           \<and> (\<not> contains LAT_PREFIX (a @ butlast LAT_PREFIX) \<and> no_digit_first b
                \<longrightarrow> lat = d1 @ [46] @ d2)
           \<and> (\<not> contains LONG_PREFIX (a' @ butlast LONG_PREFIX) \<and> no_digit_first b'
                \<longrightarrow> lng = e1 @ [46] @ e2)"
proof -
  let ?alt = "[Plus Digit, One AnyChar, Plus Digit]"
  have m1: "matches ?alt (d1 @ [46] @ d2)"
    using coordinate_text_digits[OF assms(2-5)] by (simp add: coordinate_text_def)
  have m2: "matches ?alt (e1 @ [46] @ e2)"
    using coordinate_text_digits[OF assms(7-10)] by (simp add: coordinate_text_def)
  from re_search_single[of "map_soup self" a LAT_PREFIX "d1 @ [46] @ d2" b ?alt] assms(1) m1
  obtain mlat x y where lat: "re_search LAT__REGEX (map_soup self) = Some mlat"
    "matches ?alt (group1 mlat)" "map_soup self = x @ LAT_PREFIX @ group1 mlat @ y"
    by (auto simp: LAT__REGEX_def)
  from re_search_single[of "map_soup self" a' LONG_PREFIX "e1 @ [46] @ e2" b' ?alt] assms(6) m2
  obtain mlng x' y' where lng: "re_search LONG_REGEX (map_soup self) = Some mlng"
    "matches ?alt (group1 mlng)" "map_soup self = x' @ LONG_PREFIX @ group1 mlng @ y'"
    by (auto simp: LONG_REGEX_def)
  have res: "scrap_coordinates self = Inr (group1 mlat, group1 mlng)"
    by (simp add: scrap_coordinates_def lat(1) lng(1))
  have ne1: "LAT_PREFIX \<noteq> []" by (simp add: LAT_PREFIX_def)
  have ne2: "LONG_PREFIX \<noteq> []" by (simp add: LONG_PREFIX_def)
  have ex1: "group1 mlat = d1 @ [46] @ d2"
    if "\<not> contains LAT_PREFIX (a @ butlast LAT_PREFIX)" "no_digit_first b"
    using re_search_coordinate_first[OF assms(1) that(1) ne1 assms(2-5) that(2)] lat(1)
    by (simp add: LAT__REGEX_def)
  have ex2: "group1 mlng = e1 @ [46] @ e2"
    if "\<not> contains LONG_PREFIX (a' @ butlast LONG_PREFIX)" "no_digit_first b'"
    using re_search_coordinate_first[OF assms(6) that(1) ne2 assms(7-10) that(2)] lng(1)
    by (simp add: LONG_REGEX_def)
  show ?thesis
    using res lat(2,3) lng(2,3) ex1 ex2 unfolding coordinate_text_def by blast
qed

text \<open>
  An instance: the page text \<open>{"lat": 35.6895, "lng": 139.6917}\<close> gives the pair of strings
  \<open>35.6895\<close> and \<open>139.6917\<close>.
\<close>

theorem scrap_coordinates_matched_strings_witness:
  "scrap_coordinates \<lparr>soup = blank_page,
       map_soup = u ''{'' @ LAT_PREFIX @ u ''35.6895, '' @ LONG_PREFIX @ u ''139.6917}'',
       monthly_price = 0\<rparr> = Inr (u ''35.6895'', u ''139.6917'')"
proof -
  let ?s = "\<lparr>soup = blank_page,
       map_soup = u ''{'' @ LAT_PREFIX @ u ''35.6895, '' @ LONG_PREFIX @ u ''139.6917}'',
       monthly_price = 0\<rparr>"
  let ?b = "u '', '' @ LONG_PREFIX @ u ''139.6917}''"
  let ?a' = "u ''{'' @ LAT_PREFIX @ u ''35.6895, ''"
  have h1: "map_soup ?s = u ''{'' @ LAT_PREFIX @ u ''35'' @ [46] @ u ''6895'' @ ?b"
    by (simp add: u_def)
  have h2: "map_soup ?s = ?a' @ LONG_PREFIX @ u ''139'' @ [46] @ u ''6917'' @ u ''}''"
    by (simp add: u_def)
  have d: "u ''35'' \<noteq> []" "list_all is_digit (u ''35'')" "u ''6895'' \<noteq> []" "list_all is_digit (u ''6895'')"
    "u ''139'' \<noteq> []" "list_all is_digit (u ''139'')" "u ''6917'' \<noteq> []" "list_all is_digit (u ''6917'')"
    by (simp_all add: u_def is_digit_def digit_value_def)
  have c1: "\<not> contains LAT_PREFIX (u ''{'' @ butlast LAT_PREFIX)" by code_simp
  have c2: "no_digit_first ?b" by code_simp
  have c3: "\<not> contains LONG_PREFIX (?a' @ butlast LONG_PREFIX)" by code_simp
  have c4: "no_digit_first (u ''}'')" by code_simp
  from scrap_coordinates_matched_strings[OF h1 d(1-4) h2 d(5-8)] c1 c2 c3 c4
  have "scrap_coordinates ?s = Inr (u ''35'' @ [46] @ u ''6895'', u ''139'' @ [46] @ u ''6917'')"
    by blast
  then show ?thesis by (simp add: u_def)
qed

subsection \<open>The closest stations\<close>

text \<open>
  Claim C7: when the third detail block holds a non-empty list of station fragments,
  \<open>scrap_closest_stations\<close> returns the fragments joined by newlines, with no newline at
  the end.
\<close>

theorem scrap_closest_stations_joined:
  assumes "2 < length (detail_bodies (soup self))"
    and "detail_bodies (soup self) ! 2 = fragments"
    and "fragments \<noteq> []"
  shows "scrap_closest_stations self = Inr (join_nl fragments)"
  using assms
  by (simp add: scrap_closest_stations_def index_Inr foldl_stations slice_to_minus1 butlast_concat_nl)

text \<open>
  An instance: the fragments \<open>Station A\<close> and \<open>Station B\<close> give \<open>Station A\nStation B\<close>.
\<close>

theorem scrap_closest_stations_joined_witness:
  "2 < length (detail_bodies (soup \<lparr>soup = blank_page\<lparr>detail_bodies := [[], [], [u ''Station A'', u ''Station B'']]\<rparr>,
       map_soup = [], monthly_price = 0\<rparr>))
   \<and> [u ''Station A'', u ''Station B''] \<noteq> []
   \<and> scrap_closest_stations \<lparr>soup = blank_page\<lparr>detail_bodies := [[], [], [u ''Station A'', u ''Station B'']]\<rparr>,
       map_soup = [], monthly_price = 0\<rparr> = Inr (u ''Station A'' @ [10] @ u ''Station B'')"
proof -
  let ?s = "\<lparr>soup = blank_page\<lparr>detail_bodies := [[], [], [u ''Station A'', u ''Station B'']]\<rparr>,
       map_soup = [], monthly_price = 0\<rparr>"
  have a: "2 < length (detail_bodies (soup ?s))" by (simp add: blank_page_def)
  have b: "detail_bodies (soup ?s) ! 2 = [u ''Station A'', u ''Station B'']" by (simp add: blank_page_def)
  have c: "[u ''Station A'', u ''Station B''] \<noteq> []" by simp
  from scrap_closest_stations_joined[OF a b c] a c show ?thesis by simp
qed

text \<open>
  Claim C8: when the third detail block holds no station fragment, \<open>scrap_closest_stations\<close>
  returns the empty string: the slice \<open>''[:-1]\<close> is the empty string, not an error.
\<close>

theorem scrap_closest_stations_no_station:
  assumes "2 < length (detail_bodies (soup self))"
    and "detail_bodies (soup self) ! 2 = []"
  shows "scrap_closest_stations self = Inr []"
  using assms
  by (simp add: scrap_closest_stations_def index_Inr slice_to_def)

text \<open>
  An instance: three detail blocks, the third without a station fragment.
\<close>

theorem scrap_closest_stations_no_station_witness:
  "2 < length (detail_bodies (soup \<lparr>soup = blank_page\<lparr>detail_bodies := [[u ''a''], [u ''b''], []]\<rparr>,
       map_soup = [], monthly_price = 0\<rparr>))
   \<and> scrap_closest_stations \<lparr>soup = blank_page\<lparr>detail_bodies := [[u ''a''], [u ''b''], []]\<rparr>,
       map_soup = [], monthly_price = 0\<rparr> = Inr []"
proof -
  let ?s = "\<lparr>soup = blank_page\<lparr>detail_bodies := [[u ''a''], [u ''b''], []]\<rparr>,
       map_soup = [], monthly_price = 0\<rparr>"
  have a: "2 < length (detail_bodies (soup ?s))" by (simp add: blank_page_def)
  have b: "detail_bodies (soup ?s) ! 2 = []" by (simp add: blank_page_def)
  from scrap_closest_stations_no_station[OF a b] a show ?thesis by simp
qed

subsection \<open>The positional fields\<close>

text \<open>
  Claim C9: a positional lookup at index \<open>i\<close> (4 for \<open>scrap_madori\<close>, 7 for
  \<open>scrap_bukken_type\<close>, 8 for \<open>scrap_age\<close>) returns the text of block \<open>i\<close>, counted from 0,
  with its leading carriage returns, newlines and tabs stripped, when the page has more
  than \<open>i\<close> blocks, and raises \<open>IndexError\<close> when it has at most \<open>i\<close>; no default is
  returned. \<open>scrap_surface\<close>, which reads block 5, raises in the same way.
\<close>

theorem positional_lookup:
  "(4 < length (data_bodies (soup self)) \<longrightarrow>
      scrap_madori self = Inr (lstrip (data_bodies (soup self) ! 4) CRNLTAB))
   \<and> (length (data_bodies (soup self)) \<le> 4 \<longrightarrow> scrap_madori self = Inl IndexError)
   \<and> (7 < length (data_bodies (soup self)) \<longrightarrow>
      scrap_bukken_type self = Inr (lstrip (data_bodies (soup self) ! 7) CRNLTAB))
   \<and> (length (data_bodies (soup self)) \<le> 7 \<longrightarrow> scrap_bukken_type self = Inl IndexError)
   \<and> (8 < length (data_bodies (soup self)) \<longrightarrow>
      scrap_age self = Inr (lstrip (data_bodies (soup self) ! 8) CRNLTAB))
   \<and> (length (data_bodies (soup self)) \<le> 8 \<longrightarrow> scrap_age self = Inl IndexError)
   \<and> (length (data_bodies (soup self)) \<le> 5 \<longrightarrow> scrap_surface self = Inl IndexError)"
  by (simp add: scrap_madori_def scrap_bukken_type_def scrap_age_def scrap_surface_def index_def)

text \<open>
  An instance: with nine blocks \<open>scrap_madori\<close> returns the stripped text of the fifth,
  with three blocks it raises \<open>IndexError\<close>.
\<close>

theorem positional_lookup_witness:
  "scrap_madori \<lparr>soup = blank_page\<lparr>data_bodies := [u ''0'', u ''1'', u ''2'', u ''3'', [13, 10, 9, 9] @ u ''1LDK'',
        u ''5'', u ''6'', u ''7'', u ''8'']\<rparr>, map_soup = [], monthly_price = 0\<rparr> = Inr (u ''1LDK'')
   \<and> scrap_madori \<lparr>soup = blank_page\<lparr>data_bodies := [u ''0'', u ''1'', u ''2'']\<rparr>,
        map_soup = [], monthly_price = 0\<rparr> = Inl IndexError"
proof -
  let ?s9 = "\<lparr>soup = blank_page\<lparr>data_bodies := [u ''0'', u ''1'', u ''2'', u ''3'', [13, 10, 9, 9] @ u ''1LDK'',
        u ''5'', u ''6'', u ''7'', u ''8'']\<rparr>, map_soup = [], monthly_price = 0\<rparr>"
  let ?s3 = "\<lparr>soup = blank_page\<lparr>data_bodies := [u ''0'', u ''1'', u ''2'']\<rparr>,
        map_soup = [], monthly_price = 0\<rparr>"
  have a: "4 < length (data_bodies (soup ?s9))" by simp
  have b: "length (data_bodies (soup ?s3)) \<le> 4" by simp
  have c: "lstrip (data_bodies (soup ?s9) ! 4) CRNLTAB = u ''1LDK''" by code_simp
  from positional_lookup[of ?s9] a c have 1: "scrap_madori ?s9 = Inr (u ''1LDK'')" by simp
  from positional_lookup[of ?s3] b have 2: "scrap_madori ?s3 = Inl IndexError" by blast
  from 1 2 show ?thesis by blast
qed

subsection \<open>The placeholder dash\<close>

text \<open>
  Claim C10: the normalisation of a fee text that is the placeholder \<open>-\<close> gives zero:
  the float 0.0 for each fee field of \<open>scrap_other_fees\<close>, and the integer 0 for the
  monthly fees of \<open>scrap_price\<close>.
\<close>

theorem placeholder_dash_is_zero:
  "fee_value (u ''-'') = Inr (Fin 0)
   \<and> other_fees_fields \<lparr>soup = blank_page\<lparr>data_bodies := [u ''-'', u ''-'', u ''-'', u ''-'']\<rparr>,
        map_soup = [], monthly_price = 0\<rparr> = Inr (Fin 0, Fin 0, Fin 0, Fin 0)
   \<and> snd (scrap_price \<lparr>soup = blank_page\<lparr>price_div := Some (u ''8.5'' @ MANEN), data_bodies := [u ''-'']\<rparr>,
        map_soup = [], monthly_price = 0\<rparr>) = Inr (85000, 0)"
proof (intro conjI)
  show "fee_value (u ''-'') = Inr (Fin 0)" by code_simp
  show "other_fees_fields \<lparr>soup = blank_page\<lparr>data_bodies := [u ''-'', u ''-'', u ''-'', u ''-'']\<rparr>,
        map_soup = [], monthly_price = 0\<rparr> = Inr (Fin 0, Fin 0, Fin 0, Fin 0)" by code_simp
  show "snd (scrap_price \<lparr>soup = blank_page\<lparr>price_div := Some (u ''8.5'' @ MANEN), data_bodies := [u ''-'']\<rparr>,
        map_soup = [], monthly_price = 0\<rparr>) = Inr (85000, 0)" by code_simp
qed

end
